theory Spec2Isabelle
  imports Complex_Main
begin

section \<open>Splitting a video into equal-duration segments (Split/split\_video.py)\<close>

text \<open>
  The script asks \<^verbatim>\<open>ffprobe\<close> for the duration of a file, divides it by the requested number
  of segments and runs \<^verbatim>\<open>ffmpeg\<close> once per segment. Everything the script does to the outside
  (child processes, the random number generator, printing) is recorded, in order, as a list
  of events; exceptions are values of a sum type.

  Numbers: Python's \<^verbatim>\<open>int\<close> is \<^typ>\<open>int\<close>. Python's \<^verbatim>\<open>float\<close> is modelled by \<^typ>\<open>rat\<close>:
  finite values with exact arithmetic, so rounding, infinities and NaN are outside the model.
  Strings are \<^typ>\<open>string\<close>.
\<close>

subsection \<open>Library functions the script calls\<close>

text \<open>\<^verbatim>\<open>str.isspace\<close> on the ASCII range: tab, LF, VT, FF, CR, the separators 28..31, space.\<close>

definition isspace :: "char \<Rightarrow> bool" where
  "isspace c = (let k = (of_char c :: nat) in (9 \<le> k \<and> k \<le> 13) \<or> (28 \<le> k \<and> k \<le> 32))"

text \<open>\<^verbatim>\<open>str.strip()\<close>: leading and trailing whitespace removed.\<close>

definition strip :: "string \<Rightarrow> string" where
  "strip s = rev (dropWhile isspace (rev (dropWhile isspace s)))"

text \<open>Decimal rendering of an integer, as \<^verbatim>\<open>str(k)\<close> and \<^verbatim>\<open>f"{k}"\<close> produce it.\<close>

definition digit_char :: "nat \<Rightarrow> char" where
  "digit_char d = char_of (48 + d)"

fun str_nat :: "nat \<Rightarrow> string" where
  "str_nat n = (if n < 10 then [digit_char n] else str_nat (n div 10) @ [digit_char (n mod 10)])"

declare str_nat.simps [simp del]

definition str_int :: "int \<Rightarrow> string" where
  "str_int k = (if k < 0 then CHR ''-'' # str_nat (nat (- k)) else str_nat (nat k))"

text \<open>\<^verbatim>\<open>str.rfind\<close> for a single character: the highest index holding it, or -1.\<close>

definition rfind :: "string \<Rightarrow> char \<Rightarrow> int" where
  "rfind p c = (case filter (\<lambda>k. p ! k = c) (rev [0..<length p]) of [] \<Rightarrow> - 1 | k # _ \<Rightarrow> int k)"

text \<open>
  \<^verbatim>\<open>genericpath._splitext(p, sep, altsep, extsep)\<close>: the extension starts at the last dot of
  the last path component, unless that component has only dots before it.
\<close>

definition splitext_generic :: "char \<Rightarrow> char option \<Rightarrow> char \<Rightarrow> string \<Rightarrow> string \<times> string" where
  "splitext_generic sep altsep extsep p =
     (let sepIndex = (case altsep of None \<Rightarrow> rfind p sep
                      | Some a \<Rightarrow> max (rfind p sep) (rfind p a));
          dotIndex = rfind p extsep
      in if dotIndex > sepIndex \<and>
            list_ex (\<lambda>k. p ! k \<noteq> extsep) [nat (sepIndex + 1)..<nat dotIndex]
         then (take (nat dotIndex) p, drop (nat dotIndex) p)
         else (p, []))"

text \<open>\<^verbatim>\<open>os.path.splitext\<close> of \<^verbatim>\<open>posixpath\<close>: separator \<^verbatim>\<open>/\<close>, no alternative separator.\<close>

definition splitext :: "string \<Rightarrow> string \<times> string" where
  "splitext p = splitext_generic CHR ''/'' None CHR ''.'' p"

text \<open>
  \<^verbatim>\<open>random.randint(a, b)\<close> returns an integer N with a <= N <= b. The generator's state is
  the natural number \<open>seed\<close>; every value of the range is reached by some seed.
\<close>

definition randint :: "int \<Rightarrow> int \<Rightarrow> nat \<Rightarrow> int" where
  "randint a b seed = a + int (seed mod nat (b - a + 1))"

subsection \<open>Events, errors and the environment\<close>

text \<open>
  An element of an \<^verbatim>\<open>ffmpeg\<close> command line: a string, or \<open>F x\<close> for \<^verbatim>\<open>str(x)\<close> of the
  float \<open>x\<close> (the text of a float is not modelled, its value is kept).
\<close>

datatype arg = S string | F rat

text \<open>
  The two messages the script prints, by their variable parts:
  \<^verbatim>\<open>Creating segment {i+1}/{split_count}: {output_file}\<close> and
  \<^verbatim>\<open>Done. Created {split_count} segments with ID {rand_id}.\<close>
\<close>

datatype message = Creating_segment int int string | Done_created int int

text \<open>
  What a run does, in order: \<open>Run_ffprobe argv\<close>, \<open>Randint a b r\<close> (one call of
  \<^verbatim>\<open>random.randint(a, b)\<close> that returned \<open>r\<close>), \<open>Print m\<close>, and \<open>Run_ffmpeg argv status\<close>
  (one \<^verbatim>\<open>subprocess.run\<close> of ffmpeg that exited with \<open>status\<close>).
\<close>

datatype event =
    Run_ffprobe "string list"
  | Randint int int int
  | Print message
  | Run_ffmpeg "arg list" int

text \<open>
  Both failures of the probe are Python's \<^verbatim>\<open>ValueError\<close>: the one the script raises itself
  (\<^verbatim>\<open>ffprobe failed. stderr: ...\<close>, carrying the trimmed standard error) and the one
  \<^verbatim>\<open>float()\<close> raises (\<^verbatim>\<open>could not convert string to float: ...\<close>, carrying the text).
\<close>

datatype value_error = Ffprobe_failed string | Could_not_convert string

datatype error = ValueError value_error | ZeroDivisionError

text \<open>
  The environment of one run: what ffprobe writes to (stdout, stderr) for a command line,
  the exit status of ffmpeg for a command line, the state of the random generator, and the
  builtin \<^verbatim>\<open>float()\<close> on text (\<open>None\<close>: it raises \<^verbatim>\<open>ValueError\<close>). Starting a child
  process and printing are taken to succeed: \<^verbatim>\<open>subprocess.run\<close> is called without
  \<^verbatim>\<open>check=True\<close>, so an exit status never raises.
\<close>

record env =
  ffprobe :: "string list \<Rightarrow> string \<times> string"
  ffmpeg :: "arg list \<Rightarrow> int"
  entropy :: nat
  py_float :: "string \<Rightarrow> rat option"

subsection \<open>get\_video\_duration\<close>

definition ffprobe_argv :: "string \<Rightarrow> string list" where
  "ffprobe_argv input_file =
     [''ffprobe'', ''-v'', ''error'', ''-show_entries'', ''format=duration'',
      ''-of'', ''default=noprint_wrappers=1:nokey=1'', input_file]"

definition get_video_duration :: "env \<Rightarrow> string \<Rightarrow> event list \<times> (error + rat)" where
  "get_video_duration w input_file =
     (let argv = ffprobe_argv input_file;
          (out, err) = ffprobe w argv;
          raw_output = strip out
      in if raw_output = []
         then ([Run_ffprobe argv], Inl (ValueError (Ffprobe_failed (strip err))))
         else (case py_float w raw_output of
                 None \<Rightarrow> ([Run_ffprobe argv], Inl (ValueError (Could_not_convert raw_output)))
               | Some d \<Rightarrow> ([Run_ffprobe argv], Inr d)))"

subsection \<open>split\_video\<close>

text \<open>Python's \<^verbatim>\<open>x / n\<close> for a float \<open>x\<close> and an int \<open>n\<close>: it raises on \<open>n = 0\<close>.\<close>

definition truediv :: "rat \<Rightarrow> int \<Rightarrow> error + rat" where
  "truediv x n = (if n = 0 then Inl ZeroDivisionError else Inr (x / of_int n))"

text \<open>\<^verbatim>\<open>range(n)\<close>: the indices 0, ..., n-1; empty for n <= 0.\<close>

definition range_py :: "int \<Rightarrow> int list" where
  "range_py n = map int [0..<nat n]"

definition output_name :: "string \<Rightarrow> int \<Rightarrow> int \<Rightarrow> string" where
  "output_name base_name rand_id i =
     base_name @ ''_'' @ str_int rand_id @ ''_'' @ str_int (i + 1) @ ''.mp4''"

definition ffmpeg_argv :: "rat \<Rightarrow> string \<Rightarrow> rat \<Rightarrow> string \<Rightarrow> arg list" where
  "ffmpeg_argv start_time input_file segment_duration output_file =
     [S ''ffmpeg'', S ''-y'', S ''-ss'', F start_time, S ''-i'', S input_file,
      S ''-t'', F segment_duration, S ''-c'', S ''copy'', S output_file]"

text \<open>The body of the \<^verbatim>\<open>for\<close> loop, run for each index in turn.\<close>

fun segment_loop :: "env \<Rightarrow> string \<Rightarrow> int \<Rightarrow> rat \<Rightarrow> string \<Rightarrow> int \<Rightarrow> int list \<Rightarrow> event list" where
  "segment_loop w input_file split_count segment_duration base_name rand_id [] = []"
| "segment_loop w input_file split_count segment_duration base_name rand_id (i # is) =
     (let start_time = of_int i * segment_duration;
          output_file = output_name base_name rand_id i;
          argv = ffmpeg_argv start_time input_file segment_duration output_file
      in Print (Creating_segment (i + 1) split_count output_file)
         # Run_ffmpeg argv (ffmpeg w argv)
         # segment_loop w input_file split_count segment_duration base_name rand_id is)"

definition split_video :: "env \<Rightarrow> string \<Rightarrow> int \<Rightarrow> event list \<times> (error + unit)" where
  "split_video w input_file split_count =
     (case get_video_duration w input_file of
        (ev, Inl e) \<Rightarrow> (ev, Inl e)
      | (ev, Inr duration) \<Rightarrow>
          (case truediv duration split_count of
             Inl e \<Rightarrow> (ev, Inl e)
           | Inr segment_duration \<Rightarrow>
               (let (base_name, ext) = splitext input_file;
                    rand_id = randint 1000 9999 (entropy w)
                in (ev @ [Randint 1000 9999 rand_id]
                       @ segment_loop w input_file split_count segment_duration base_name rand_id
                           (range_py split_count)
                       @ [Print (Done_created split_count rand_id)],
                    Inr ()))))"

subsection \<open>Reading a run\<close>

text \<open>The ffmpeg command lines of a run, in the order they were run.\<close>

fun ffmpeg_calls :: "event list \<Rightarrow> arg list list" where
  "ffmpeg_calls [] = []"
| "ffmpeg_calls (Run_ffmpeg argv status # evs) = argv # ffmpeg_calls evs"
| "ffmpeg_calls (e # evs) = ffmpeg_calls evs"


text \<open>The values the random generator returned during a run.\<close>

fun draws :: "event list \<Rightarrow> int list" where
  "draws [] = []"
| "draws (Randint a b r # evs) = r # draws evs"
| "draws (e # evs) = draws evs"


text \<open>
  The segment job an ffmpeg command line asks for: the value after \<^verbatim>\<open>-ss\<close> (start time),
  the value after \<^verbatim>\<open>-t\<close> (duration) and the last element (output path).
\<close>

fun job_of :: "arg list \<Rightarrow> (rat \<times> rat \<times> string) option" where
  "job_of argv =
     (if length argv = 11 \<and> argv ! 2 = S ''-ss'' \<and> argv ! 6 = S ''-t''
      then (case (argv ! 3, argv ! 7, argv ! 10) of
              (F st, F du, S out) \<Rightarrow> Some (st, du, out)
            | _ \<Rightarrow> None)
      else None)"

text \<open>
  The jobs of a run, in order; \<open>None\<close> if some ffmpeg command line of the run is not of
  the shape above.
\<close>

definition segment_jobs :: "event list \<Rightarrow> (rat \<times> rat \<times> string) list option" where
  "segment_jobs evs = those (map job_of (ffmpeg_calls evs))"


definition output_paths :: "event list \<Rightarrow> string list option" where
  "output_paths evs = map_option (map (\<lambda>(st, du, out). out)) (segment_jobs evs)"



subsection \<open>Sample environments\<close>

text \<open>
  One instance of \<^verbatim>\<open>float()\<close> for the samples below: it reads the decimal literals
  \<^verbatim>\<open>digits\<close> and \<^verbatim>\<open>digits.digits\<close> with an optional sign, which is the shape ffprobe prints
  a duration in, and rejects every other text.
\<close>

definition is_digit :: "char \<Rightarrow> bool" where
  "is_digit c = (let k = (of_char c :: nat) in 48 \<le> k \<and> k \<le> 57)"

definition nat_of_digits :: "string \<Rightarrow> nat" where
  "nat_of_digits s = foldl (\<lambda>a c. 10 * a + (of_char c - 48)) 0 s"

definition unsigned_decimal :: "string \<Rightarrow> rat option" where
  "unsigned_decimal s =
     (let ip = takeWhile is_digit s; rest = dropWhile is_digit s
      in if ip = [] then None
         else (case rest of
                 [] \<Rightarrow> Some (of_nat (nat_of_digits ip))
               | c # fp \<Rightarrow>
                   if c = CHR ''.'' \<and> fp \<noteq> [] \<and> list_all is_digit fp
                   then Some (of_nat (nat_of_digits ip)
                              + of_nat (nat_of_digits fp) / 10 ^ length fp)
                   else None))"

definition float_of_decimal :: "string \<Rightarrow> rat option" where
  "float_of_decimal s =
     (case s of
        [] \<Rightarrow> None
      | c # r \<Rightarrow>
          if c = CHR ''-'' then map_option uminus (unsigned_decimal r)
          else if c = CHR ''+'' then unsigned_decimal r
          else unsigned_decimal s)"

text \<open>
  An environment in which ffprobe always prints \<open>out\<close> and \<open>err\<close>, every ffmpeg run exits
  with status 1, and the random generator is in the state that makes
  \<^verbatim>\<open>randint(1000, 9999)\<close> return 1234.
\<close>

definition canned_env :: "string \<Rightarrow> string \<Rightarrow> env" where
  "canned_env out err =
     \<lparr>ffprobe = (\<lambda>argv. (out, err)), ffmpeg = (\<lambda>argv. 1), entropy = 234,
      py_float = float_of_decimal\<rparr>"

section \<open>Auxiliary facts\<close>

subsection \<open>Facts about the library functions\<close>






lemma splitext_generic_append:
  "fst (splitext_generic sep altsep extsep p) @ snd (splitext_generic sep altsep extsep p) = p"
  by (simp add: splitext_generic_def Let_def)

lemma those_map_Some: "those (map (\<lambda>x. Some (g x)) xs) = Some (map g xs)"
  by (induction xs) simp_all

subsection \<open>The shape of a run\<close>

lemma get_video_duration_events: "fst (get_video_duration w f) = [Run_ffprobe (ffprobe_argv f)]"
  by (simp add: get_video_duration_def Let_def split: prod.splits option.splits)

lemma ffmpeg_calls_append: "ffmpeg_calls (xs @ ys) = ffmpeg_calls xs @ ffmpeg_calls ys"
  by (induction xs rule: ffmpeg_calls.induct) simp_all




lemma ffmpeg_calls_loop:
  "ffmpeg_calls (segment_loop w f n sd base r is) =
     map (\<lambda>i. ffmpeg_argv (of_int i * sd) f sd (output_name base r i)) is"
  by (induction "is") (simp_all add: Let_def)




lemma job_of_ffmpeg_argv: "job_of (ffmpeg_argv st f du out) = Some (st, du, out)"
  by (simp add: ffmpeg_argv_def)

lemma split_video_probe_failed:
  "snd (get_video_duration w f) = Inl e \<Longrightarrow>
     split_video w f n = ([Run_ffprobe (ffprobe_argv f)], Inl e)"
  using get_video_duration_events [of w f]
  by (cases "get_video_duration w f") (simp add: split_video_def)

lemma split_video_zero:
  "snd (get_video_duration w f) = Inr d \<Longrightarrow>
     split_video w f 0 = ([Run_ffprobe (ffprobe_argv f)], Inl ZeroDivisionError)"
  using get_video_duration_events [of w f]
  by (cases "get_video_duration w f") (simp add: split_video_def truediv_def)

lemma split_video_run:
  "snd (get_video_duration w f) = Inr d \<Longrightarrow> n \<noteq> 0 \<Longrightarrow>
     split_video w f n =
       (Run_ffprobe (ffprobe_argv f)
        # Randint 1000 9999 (randint 1000 9999 (entropy w))
        # segment_loop w f n (d / of_int n) (fst (splitext f))
            (randint 1000 9999 (entropy w)) (range_py n)
        @ [Print (Done_created n (randint 1000 9999 (entropy w)))],
        Inr ())"
  using get_video_duration_events [of w f]
  by (cases "get_video_duration w f")
     (simp add: split_video_def truediv_def Let_def split: prod.splits)

lemma segment_jobs_run:
  "snd (get_video_duration w f) = Inr d \<Longrightarrow> n \<noteq> 0 \<Longrightarrow>
     segment_jobs (fst (split_video w f n)) =
       Some (map (\<lambda>i. (of_int i * (d / of_int n), d / of_int n,
                        output_name (fst (splitext f)) (randint 1000 9999 (entropy w)) i))
               (range_py n))"
  by (simp add: split_video_run segment_jobs_def ffmpeg_calls_append ffmpeg_calls_loop
      job_of_ffmpeg_argv o_def those_map_Some del: job_of.simps)


lemma output_paths_run:
  "snd (get_video_duration w f) = Inr d \<Longrightarrow> n \<noteq> 0 \<Longrightarrow>
     output_paths (fst (split_video w f n)) =
       Some (map (output_name (fst (splitext f)) (randint 1000 9999 (entropy w))) (range_py n))"
  by (simp add: output_paths_def segment_jobs_run o_def)

subsection \<open>Sample runs\<close>



lemma canned_probe_600:
  "snd (get_video_duration (canned_env ''600.000000'' []) f) = Inr 600"
  by (simp add: get_video_duration_def canned_env_def strip_def isspace_def
      float_of_decimal_def unsigned_decimal_def is_digit_def nat_of_digits_def Let_def)

subsection \<open>Equal windows, distinct names\<close>











section \<open>Output file names\<close>

text \<open>
  Against C1 as stated: for the input \<^verbatim>\<open>clip.mkv\<close> (extension \<^verbatim>\<open>.mkv\<close>), run identifier 1234
  and segment index 0, the output path handed to ffmpeg is \<^verbatim>\<open>clip_1234_1.mp4\<close>, not the
  path with the input's own extension.
\<close>

theorem output_path_original_extension_counterexample:
  "splitext ''clip.mkv'' = (''clip'', ''.mkv'')
   \<and> draws (fst (split_video (canned_env ''600.000000'' []) ''clip.mkv'' 1)) = [1234]
   \<and> output_paths (fst (split_video (canned_env ''600.000000'' []) ''clip.mkv'' 1))
       = Some [''clip_1234_1.mp4'']
   \<and> ''clip_1234_1.mp4'' \<noteq> ''clip'' @ ''_'' @ str_int 1234 @ ''_'' @ str_int (0 + 1) @ ''.mkv''"
  by code_simp

text \<open>
  C1 (amended): whenever the probe returns a duration and the segment count is not zero, the
  output path of segment index i is the input path with its extension stripped, an
  underscore, the run identifier, an underscore, the 1-based segment number i+1, and the
  fixed extension \<^verbatim>\<open>.mp4\<close>, whatever the extension of the input file is.
\<close>

theorem output_path_mp4:
  assumes "snd (get_video_duration w input_file) = Inr d" and "split_count \<noteq> 0"
  shows "output_paths (fst (split_video w input_file split_count)) =
           Some (map (\<lambda>i. fst (splitext input_file) @ ''_''
                          @ str_int (randint 1000 9999 (entropy w)) @ ''_''
                          @ str_int (i + 1) @ ''.mp4'')
                   (range_py split_count))
         \<and> fst (splitext input_file) @ snd (splitext input_file) = input_file"
  using assms
  by (simp add: output_paths_run output_name_def splitext_def splitext_generic_append)

theorem output_path_mp4_witness:
  "snd (get_video_duration (canned_env ''600.000000'' []) ''clip.mkv'') = Inr 600
   \<and> (2::int) \<noteq> 0
   \<and> output_paths (fst (split_video (canned_env ''600.000000'' []) ''clip.mkv'' 2)) =
       Some [''clip_1234_1.mp4'', ''clip_1234_2.mp4'']
   \<and> fst (splitext ''clip.mkv'') @ snd (splitext ''clip.mkv'') = ''clip.mkv''"
proof -
  have p: "snd (get_video_duration (canned_env ''600.000000'' []) ''clip.mkv'') = Inr 600"
    by (rule canned_probe_600)
  have n: "(2::int) \<noteq> 0" by simp
  have r: "map (\<lambda>i. fst (splitext ''clip.mkv'') @ ''_''
                          @ str_int (randint 1000 9999 (entropy (canned_env ''600.000000'' []))) @ ''_''
                          @ str_int (i + 1) @ ''.mp4'')
                   (range_py 2) = [''clip_1234_1.mp4'', ''clip_1234_2.mp4'']"
    by code_simp
  show ?thesis
    using output_path_mp4 [OF p n] p r by simp
qed

section \<open>Segment boundaries\<close>







section \<open>Failures of the probe\<close>





section \<open>The segment loop\<close>



section \<open>The run identifier\<close>



section \<open>Segment counts that are not positive\<close>

text \<open>
  C9: for the segment count 0 the run always consists of the ffprobe call alone, so the
  probe runs first and nothing is checked before it; when the probe returns a duration,
  the division raises ZeroDivisionError, and neither the random generator nor ffmpeg is
  used; when the probe fails, its own error is the result.
\<close>

theorem zero_count_division_error:
  "fst (split_video w input_file 0) = [Run_ffprobe (ffprobe_argv input_file)]
   \<and> (\<forall>d. snd (get_video_duration w input_file) = Inr d \<longrightarrow>
          truediv d 0 = Inl ZeroDivisionError
          \<and> snd (split_video w input_file 0) = Inl ZeroDivisionError)
   \<and> (\<forall>e. snd (get_video_duration w input_file) = Inl e \<longrightarrow>
          snd (split_video w input_file 0) = Inl e)
   \<and> ffmpeg_calls (fst (split_video w input_file 0)) = []
   \<and> draws (fst (split_video w input_file 0)) = []"
proof (cases "snd (get_video_duration w input_file)")
  case (Inl e)
  then show ?thesis by (simp add: split_video_probe_failed)
next
  case (Inr d)
  then show ?thesis by (simp add: split_video_zero truediv_def)
qed

theorem zero_count_division_error_witness:
  "snd (get_video_duration (canned_env ''600.000000'' []) ''clip.mkv'') = Inr 600
   \<and> split_video (canned_env ''600.000000'' []) ''clip.mkv'' 0 =
       ([Run_ffprobe (ffprobe_argv ''clip.mkv'')], Inl ZeroDivisionError)
   \<and> ffmpeg_calls (fst (split_video (canned_env ''600.000000'' []) ''clip.mkv'' 0)) = []"
proof -
  have p: "snd (get_video_duration (canned_env ''600.000000'' []) ''clip.mkv'') = Inr 600"
    by (rule canned_probe_600)
  show ?thesis
    using zero_count_division_error [of "canned_env ''600.000000'' []" "''clip.mkv''"] p
    by (simp add: prod_eq_iff)
qed




end
